theory Spec2Isabelle
  imports Main "HOL-Library.Multiset" "HOL-Library.Multiset_Order"
begin

section \<open>The webdrive command-line client: path classification and upload\<close>

text \<open>
  A shallow embedding of \<^verbatim>\<open>src/webdrive/client.py\<close>: \<^verbatim>\<open>process_names\<close>,
  \<^verbatim>\<open>upload_one_file\<close>, \<^verbatim>\<open>upload\<close>, \<^verbatim>\<open>cp\<close> and the exit code of the main block,
  with the helpers they call (\<^verbatim>\<open>send_request\<close>, \<^verbatim>\<open>mkdir\<close>, \<^verbatim>\<open>rexists\<close>,
  \<^verbatim>\<open>remote_file_offset\<close>).

  Python exceptions are values of \<open>error\<close>; the local file system and the server are
  oracles collected in the record \<open>world\<close>; every request sent to the server is appended
  to a log, and the server's reply may depend on the log so far, so that a server
  with state is covered. Text written with \<^verbatim>\<open>print\<close> is not part of the model.

  What the model leaves to the oracles: \<^verbatim>\<open>requests.post\<close> always comes back with a
  response (a connection that cannot be made is not modelled), the JSON of a response
  has the fields \<^verbatim>\<open>status\<close>, \<^verbatim>\<open>errors\<close>, \<^verbatim>\<open>offset\<close> and \<^verbatim>\<open>output\<close>, and
  \<^verbatim>\<open>os.listdir\<close> lists every directory it is asked for. Paths are POSIX paths.
\<close>

subsection \<open>Exceptions\<close>

datatype error =
    AssertionError string    \<comment> \<open>a failed \<^verbatim>\<open>assert\<close>, with its message (empty when none is given)\<close>
  | IndexError               \<comment> \<open>\<^verbatim>\<open>x[0]\<close> on an empty string\<close>
  | UnboundLocalError        \<comment> \<open>a local variable read before any assignment\<close>
  | NameError                \<comment> \<open>a global name that is bound nowhere in the module\<close>
  | FileNotFoundError        \<comment> \<open>\<^verbatim>\<open>open\<close> of a path that does not exist\<close>
  | IsADirectoryError        \<comment> \<open>\<^verbatim>\<open>open\<close> of a directory\<close>
  | OSError                  \<comment> \<open>\<^verbatim>\<open>seek\<close> to a negative position (EINVAL)\<close>

subsection \<open>Strings and \<^verbatim>\<open>os.path\<close> (posixpath)\<close>

definition startswith_colon :: "string \<Rightarrow> bool" where
  \<comment> \<open>\<^verbatim>\<open>s.startswith(':')\<close>\<close>
  "startswith_colon s = (case s of [] \<Rightarrow> False | c # _ \<Rightarrow> c = CHR '':'')"

definition is_sep :: "char \<Rightarrow> bool" where
  "is_sep c = (c = CHR ''/'')"

definition basename :: "string \<Rightarrow> string" where
  \<comment> \<open>\<^verbatim>\<open>i = p.rfind('/') + 1; return p[i:]\<close>\<close>
  "basename p = rev (takeWhile (\<lambda>c. \<not> is_sep c) (rev p))"

definition dirname :: "string \<Rightarrow> string" where
  \<comment> \<open>\<^verbatim>\<open>i = p.rfind('/') + 1; head = p[:i]\<close>;
      \<^verbatim>\<open>if head and head != '/' * len(head): head = head.rstrip('/')\<close>\<close>
  "dirname p =
     (let head = rev (dropWhile (\<lambda>c. \<not> is_sep c) (rev p))
      in if head \<noteq> [] \<and> \<not> list_all is_sep head
         then rev (dropWhile is_sep (rev head))
         else head)"

definition os_path_join :: "string \<Rightarrow> string \<Rightarrow> string" where
  \<comment> \<open>\<^verbatim>\<open>os.path.join(a, b)\<close>: \<^verbatim>\<open>b\<close> alone when it starts with the separator;
      \<^verbatim>\<open>a + b\<close> when \<^verbatim>\<open>a\<close> is empty or ends with the separator; \<^verbatim>\<open>a + '/' + b\<close> otherwise\<close>
  "os_path_join a b =
     (if b \<noteq> [] \<and> is_sep (hd b) then b
      else if a = [] \<or> is_sep (last a) then a @ b
      else a @ ''/'' @ b)"

subsection \<open>The server and the local file system\<close>

datatype call =
    ExistsCall string                  \<comment> \<open>\<^verbatim>\<open>exists\<close> endpoint: \<^verbatim>\<open>name\<close>\<close>
  | OffsetCall string string           \<comment> \<open>\<^verbatim>\<open>offset\<close> endpoint: \<^verbatim>\<open>src\<close>, \<^verbatim>\<open>dst\<close>\<close>
  | UploadCall string int string       \<comment> \<open>\<^verbatim>\<open>upload\<close> endpoint: the file's key \<^verbatim>\<open>basename(src)\<close>,
                                            the \<^verbatim>\<open>offset\<close> field, and the path of the file whose
                                            bytes from that offset on are the body\<close>
  | MkdirCall bool bool "string list"  \<comment> \<open>\<^verbatim>\<open>mkdir\<close> endpoint: \<^verbatim>\<open>parents\<close>, \<^verbatim>\<open>verbose\<close>, \<^verbatim>\<open>names\<close>\<close>

record reply =
  status :: bool
  errors :: "string list"
  offset :: int
  outputs :: "string list"   \<comment> \<open>the field \<^verbatim>\<open>output\<close>\<close>

text \<open>
  \<open>server w log c\<close> is what \<^verbatim>\<open>send_request\<close> gets for the request \<open>c\<close> after the
  requests of \<open>log\<close>: \<open>None\<close> when the HTTP response is not OK, the decoded JSON
  otherwise.
\<close>

record world =
  exists :: "string \<Rightarrow> bool"
  isdir :: "string \<Rightarrow> bool"
  isfile :: "string \<Rightarrow> bool"
  listdir :: "string \<Rightarrow> string list"
  server :: "call list \<Rightarrow> call \<Rightarrow> reply option"

subsection \<open>\<^verbatim>\<open>process_names\<close>\<close>

definition check_pair :: "string \<Rightarrow> string \<Rightarrow> error + unit" where
  \<comment> \<open>the branch \<^verbatim>\<open>names_len == 2\<close>\<close>
  "check_pair src dst =
     (if startswith_colon src \<and> startswith_colon dst
         \<or> \<not> startswith_colon src \<and> \<not> startswith_colon dst
      then Inl (AssertionError ''wrong source or destination address'')
      else Inr ())"

fun first_chars :: "string list \<Rightarrow> error + char list" where
  \<comment> \<open>\<^verbatim>\<open>[x[0] for x in src]\<close>\<close>
  "first_chars [] = Inr []"
| "first_chars (x # xs) =
     (case x of
        [] \<Rightarrow> Inl IndexError
      | c # _ \<Rightarrow> (case first_chars xs of Inl e \<Rightarrow> Inl e | Inr cs \<Rightarrow> Inr (c # cs)))"

definition check_many :: "string list \<Rightarrow> string \<Rightarrow> error + unit" where
  \<comment> \<open>the branch \<^verbatim>\<open>names_len > 2\<close>\<close>
  "check_many src dst =
     (case first_chars src of
        Inl e \<Rightarrow> Inl e
      | Inr chars \<Rightarrow>
          if startswith_colon dst \<and> count_list chars CHR '':'' \<noteq> 0
             \<or> \<not> startswith_colon dst \<and> count_list chars CHR '':'' \<noteq> length chars
          then Inl (AssertionError ''wrong source or destination address'')
          else Inr ())"

fun check_sources :: "world \<Rightarrow> string list \<Rightarrow> error + unit" where
  \<comment> \<open>\<^verbatim>\<open>for name in src: assert exists(name), "file not exists: %s" % name\<close>\<close>
  "check_sources w [] = Inr ()"
| "check_sources w (name # rest) =
     (if exists w name then check_sources w rest
      else Inl (AssertionError (''file not exists: '' @ name)))"

definition check_destination :: "world \<Rightarrow> string \<Rightarrow> error + unit" where
  "check_destination w dst =
     (if exists w dst
      then (if isdir w dst then Inr ()
            else Inl (AssertionError ''destination exists but is not a directory''))
      else (let p = dirname dst
            in if isdir w p then Inr ()
               else Inl (AssertionError (p @ '' not exists or not a directory''))))"

definition process_names :: "world \<Rightarrow> string list \<Rightarrow> error + (string list \<times> string \<times> bool)" where
  "process_names w names =
     (if \<not> 2 \<le> length names then Inl (AssertionError ''expect at least two file names'')
      else
        (let src = butlast names; dst = last names
         in (case (if length names = 2 then check_pair (hd names) dst else check_many src dst) of
               Inl e \<Rightarrow> Inl e
             | Inr _ \<Rightarrow>
                 (let is_upload = startswith_colon dst
                  in (case (if is_upload then check_sources w src else check_destination w dst) of
                        Inl e \<Rightarrow> Inl e
                      | Inr _ \<Rightarrow> Inr (src, drop 1 dst, is_upload))))))"

subsection \<open>Requests\<close>

text \<open>
  A computation takes the log of the requests made so far and gives its result, a value
  or the exception raised, with the log extended by the requests it made.
\<close>

type_synonym 'a io = "call list \<Rightarrow> (error + 'a) \<times> call list"

definition io_return :: "'a \<Rightarrow> 'a io" where
  "io_return x = (\<lambda>log. (Inr x, log))"

definition io_raise :: "error \<Rightarrow> 'a io" where
  "io_raise e = (\<lambda>log. (Inl e, log))"

definition io_bind :: "'a io \<Rightarrow> ('a \<Rightarrow> 'b io) \<Rightarrow> 'b io" where
  "io_bind m f = (\<lambda>log. case m log of (Inl e, log') \<Rightarrow> (Inl e, log') | (Inr x, log') \<Rightarrow> f x log')"

definition send_request :: "world \<Rightarrow> call \<Rightarrow> reply option io" where
  "send_request w c = (\<lambda>log. (Inr (server w log c), log @ [c]))"

text \<open>
  Modelled from the spec: \<^verbatim>\<open>thinap.ArgParser\<close> is imported by the source file and is not
  part of it. Following the command-line surface the spec gives
  (\<^verbatim>\<open>mkdir [-p] [-v] [names...]\<close>, \<^verbatim>\<open>cp [-o] [-r] [-v] <sources...> <dest>\<close>), a token equal
  to a requested flag sets that flag and every other token is a name. The result is the
  list of the flags that are set and the list of names, in order.
\<close>

definition parse_args :: "string list \<Rightarrow> (string \<times> string) list \<Rightarrow> string list \<times> string list" where
  "parse_args args request =
     (map fst (filter (\<lambda>(name, flag). flag \<in> set args) request),
      filter (\<lambda>a. a \<notin> set (map snd request)) args)"

definition mkdir_request :: "(string \<times> string) list" where
  "mkdir_request = [(''parents'', ''-p''), (''verbose'', ''-v'')]"

definition mkdir :: "world \<Rightarrow> string list \<Rightarrow> bool io" where
  "mkdir w args =
     (let (mapping, names) = parse_args args mkdir_request;
          parents = (''parents'' \<in> set mapping);
          verbose = (''verbose'' \<in> set mapping)
      in io_bind (send_request w (MkdirCall parents verbose names))
           (\<lambda>res. case res of
                     None \<Rightarrow> io_return False
                   | Some r \<Rightarrow> io_return (status r)))"

definition rexists :: "world \<Rightarrow> string \<Rightarrow> bool io" where
  "rexists w path =
     io_bind (send_request w (ExistsCall path))
       (\<lambda>res. case res of
                 None \<Rightarrow> io_raise (AssertionError [])
               | Some r \<Rightarrow> io_return (status r))"

definition remote_file_offset :: "world \<Rightarrow> string \<Rightarrow> string \<Rightarrow> int io" where
  "remote_file_offset w src dst =
     io_bind (send_request w (OffsetCall src dst))
       (\<lambda>res. case res of
                 None \<Rightarrow> io_raise (AssertionError [])
               | Some r \<Rightarrow> io_return (offset r))"

subsection \<open>\<^verbatim>\<open>upload_one_file\<close>\<close>

datatype errmsg =
    NoMessage                \<comment> \<open>\<^verbatim>\<open>None\<close>\<close>
  | Message string           \<comment> \<open>a string built by the client\<close>
  | Errors "string list"     \<comment> \<open>the server's \<^verbatim>\<open>errors\<close> list\<close>

type_synonym outcome = "bool \<times> errmsg"

definition open_seek :: "world \<Rightarrow> string \<Rightarrow> int \<Rightarrow> unit io" where
  \<comment> \<open>\<^verbatim>\<open>sfile = open(src, 'rb'); sfile.seek(offset)\<close>: the file has to exist and not be a
      directory, and a binary file refuses a negative position\<close>
  "open_seek w src off =
     (if \<not> exists w src then io_raise FileNotFoundError
      else if isdir w src then io_raise IsADirectoryError
      else if off < 0 then io_raise OSError
      else io_return ())"

definition regular_upload :: "world \<Rightarrow> string \<Rightarrow> string \<Rightarrow> outcome io" where
  \<comment> \<open>lines 376 to 389. The statement \<^verbatim>\<open>if offset == -1: True, None\<close> evaluates a tuple and
      drops it: it returns nothing and changes nothing, so it has no counterpart here.\<close>
  "regular_upload w src dst =
     io_bind (remote_file_offset w src dst) (\<lambda>off.
     io_bind (open_seek w src off) (\<lambda>_.
     io_bind (send_request w (UploadCall (basename src) off src)) (\<lambda>res.
       case res of
         None \<Rightarrow> io_raise (AssertionError [])
       | Some r \<Rightarrow> io_return (status r, Errors (errors r)))))"

definition upload_one_file :: "world \<Rightarrow> string \<Rightarrow> string \<Rightarrow> bool \<Rightarrow> bool \<Rightarrow> outcome io" where
  \<comment> \<open>lines 363 to 370: with \<^verbatim>\<open>one\<close> set, line 367 evaluates the name \<^verbatim>\<open>digest_of_path\<close>.
      The module binds neither that name nor \<^verbatim>\<open>one_mode_upload\<close> (no \<^verbatim>\<open>def\<close>, no
      assignment, no import), so the lookup raises before any request is made and lines
      368 to 370 are never reached\<close>
  "upload_one_file w src dst one verbose =
     (if one then io_raise NameError
      else regular_upload w src dst)"

subsection \<open>\<^verbatim>\<open>upload\<close>\<close>

definition probe :: "world \<Rightarrow> bool \<Rightarrow> string \<Rightarrow> string \<Rightarrow> (string \<times> bool) io" where
  \<comment> \<open>lines 329 to 333: the directory to create and the new value of
      \<^verbatim>\<open>assume_not_exists\<close>; \<^verbatim>\<open>or\<close> does not call \<^verbatim>\<open>rexists\<close> when the flag is set\<close>
  "probe w assume_not_exists dir dst_dir =
     (if assume_not_exists then io_return (dst_dir, True)
      else io_bind (rexists w dst_dir)
             (\<lambda>found. if \<not> found then io_return (dst_dir, True)
                       else io_return (os_path_join dst_dir dir, assume_not_exists)))"

fun listdir_loop ::
  "world \<Rightarrow> bool \<Rightarrow> bool \<Rightarrow> string \<Rightarrow> string \<Rightarrow> string list \<Rightarrow>
   (string \<times> string) list \<Rightarrow> outcome option \<Rightarrow> ((string \<times> string) list \<times> outcome option) io" where
  \<comment> \<open>lines 340 to 346, over the entries still to visit; \<open>res\<close> is the pair of locals
      \<^verbatim>\<open>status, errmsg\<close>, \<open>None\<close> as long as they are unbound\<close>
  "listdir_loop w one verbose dir dst_dir [] dirs res = io_return (dirs, res)"
| "listdir_loop w one verbose dir dst_dir (sub # subs) dirs res =
     (let path = os_path_join dir sub
      in if isdir w path
         then listdir_loop w one verbose dir dst_dir subs
                (dirs @ [(path, os_path_join dst_dir sub)]) res
         else if isfile w path
         then io_bind (upload_one_file w path (os_path_join dst_dir sub) one verbose)
                (\<lambda>r. listdir_loop w one verbose dir dst_dir subs dirs (Some r))
         else listdir_loop w one verbose dir dst_dir subs dirs res)"

definition walk_step ::
  "world \<Rightarrow> bool \<Rightarrow> bool \<Rightarrow> string \<Rightarrow> string \<Rightarrow> (string \<times> string) list \<Rightarrow> bool \<Rightarrow> outcome option \<Rightarrow>
   ((string \<times> string) list \<times> bool \<times> outcome option) io" where
  \<comment> \<open>one turn of the \<^verbatim>\<open>while\<close> loop, for the task \<open>(dir, dst_dir)\<close> just popped\<close>
  "walk_step w one verbose dir dst_dir dirs assume_not_exists res =
     io_bind (probe w assume_not_exists dir dst_dir) (\<lambda>(new_dir, assume').
     io_bind (mkdir w ([new_dir, ''-p''] @ (if verbose then [''-v''] else []))) (\<lambda>ok.
       if \<not> ok then io_raise (AssertionError [])
       else io_bind (listdir_loop w one verbose dir dst_dir (listdir w dir) dirs res)
              (\<lambda>(dirs', res'). io_return (dirs', assume', res'))))"

text \<open>
  The \<^verbatim>\<open>while dirs\<close> loop. The local file system is an oracle, so the queue may never
  run empty (a directory that lists itself through a link): the loop takes fuel, one unit
  for each test of its condition, and \<open>None\<close> says that the fuel ran out.
\<close>

fun walk ::
  "nat \<Rightarrow> world \<Rightarrow> bool \<Rightarrow> bool \<Rightarrow> (string \<times> string) list \<Rightarrow> bool \<Rightarrow> outcome option \<Rightarrow>
   call list \<Rightarrow> ((error + outcome option) \<times> call list) option" where
  "walk 0 w one verbose dirs assume_not_exists res log = None"
| "walk (Suc n) w one verbose [] assume_not_exists res log = Some (Inr res, log)"
| "walk (Suc n) w one verbose ((dir, dst_dir) # dirs) assume_not_exists res log =
     (case walk_step w one verbose dir dst_dir dirs assume_not_exists res log of
        (Inl e, log') \<Rightarrow> Some (Inl e, log')
      | (Inr (dirs', assume', res'), log') \<Rightarrow> walk n w one verbose dirs' assume' res' log')"

definition upload ::
  "nat \<Rightarrow> world \<Rightarrow> string \<Rightarrow> string \<Rightarrow> bool \<Rightarrow> bool \<Rightarrow> bool \<Rightarrow>
   call list \<Rightarrow> ((error + outcome) \<times> call list) option" where
  \<comment> \<open>\<^verbatim>\<open>return status, errmsg\<close> raises when the two locals were never bound\<close>
  "upload fuel w src dst one recursive verbose log =
     (if isdir w src
      then (if \<not> recursive then Some (Inr (False, Message (''omitting directory: '' @ src)), log)
            else (case walk fuel w one verbose [(src, dst)] False None log of
                    None \<Rightarrow> None
                  | Some (Inl e, log') \<Rightarrow> Some (Inl e, log')
                  | Some (Inr None, log') \<Rightarrow> Some (Inl UnboundLocalError, log')
                  | Some (Inr (Some out), log') \<Rightarrow> Some (Inr out, log')))
      else Some (io_bind (mkdir w [dirname dst, ''-p''])
                   (\<lambda>ok. if \<not> ok then io_raise (AssertionError [])
                         else upload_one_file w src dst one verbose) log))"

subsection \<open>\<^verbatim>\<open>cp\<close> and the exit code\<close>

definition cp_request :: "(string \<times> string) list" where
  "cp_request = [(''one'', ''-o''), (''recursive'', ''-r''), (''verbose'', ''-v'')]"

fun cp_loop ::
  "nat \<Rightarrow> world \<Rightarrow> string \<Rightarrow> bool \<Rightarrow> bool \<Rightarrow> bool \<Rightarrow> string list \<Rightarrow> bool \<Rightarrow>
   call list \<Rightarrow> ((error + bool) \<times> call list) option" where
  \<comment> \<open>lines 308 to 313, over the sources still to send; \<open>res\<close> is the local \<^verbatim>\<open>res\<close>\<close>
  "cp_loop fuel w dst one recursive verbose [] res log = Some (Inr res, log)"
| "cp_loop fuel w dst one recursive verbose (src_path # rest) res log =
     (case upload fuel w src_path dst one recursive verbose log of
        None \<Rightarrow> None
      | Some (Inl e, log') \<Rightarrow> Some (Inl e, log')
      | Some (Inr (st, errmsg), log') \<Rightarrow>
          cp_loop fuel w dst one recursive verbose rest (if \<not> st then False else res) log')"

definition cp :: "nat \<Rightarrow> world \<Rightarrow> string list \<Rightarrow> call list \<Rightarrow> ((error + bool) \<times> call list) option" where
  "cp fuel w args log =
     (let (mapping, names) = parse_args args cp_request;
          one = (''one'' \<in> set mapping);
          recursive = (''recursive'' \<in> set mapping);
          verbose = (''verbose'' \<in> set mapping)
      in (case process_names w names of
            Inl e \<Rightarrow> Some (Inl e, log)
          | Inr (src, dst, is_upload) \<Rightarrow> cp_loop fuel w dst one recursive verbose src True log))"

definition main_cp :: "nat \<Rightarrow> world \<Rightarrow> string list \<Rightarrow> int option" where
  \<comment> \<open>the exit code of the main block for \<^verbatim>\<open>client.py cp args\<close>, on a fresh log\<close>
  "main_cp fuel w args =
     (if ''--help'' \<in> set args then Some 0
      else (case cp fuel w args [] of
              None \<Rightarrow> None
            | Some (Inl e, log') \<Rightarrow> Some 1
            | Some (Inr st, log') \<Rightarrow> Some (if st then 0 else 1)))"

subsection \<open>Properties named by the specification\<close>



definition is_upload_call :: "call \<Rightarrow> bool" where
  "is_upload_call c = (case c of UploadCall _ _ _ \<Rightarrow> True | _ \<Rightarrow> False)"

definition is_exists_call :: "call \<Rightarrow> bool" where
  "is_exists_call c = (case c of ExistsCall _ \<Rightarrow> True | _ \<Rightarrow> False)"



fun uploads_in_turn ::
  "nat \<Rightarrow> world \<Rightarrow> string \<Rightarrow> bool \<Rightarrow> bool \<Rightarrow> bool \<Rightarrow> string list \<Rightarrow> call list \<Rightarrow>
   (outcome list \<times> call list) option" where
  \<comment> \<open>\<^verbatim>\<open>upload\<close> is called on each of the sources in order, each call starting from the
      log the one before left, and each returns an outcome: the outcomes and the final
      log. \<open>None\<close> when some call raises or does not return\<close>
  "uploads_in_turn fuel w dst one recursive verbose [] log = Some ([], log)"
| "uploads_in_turn fuel w dst one recursive verbose (s # rest) log =
     (case upload fuel w s dst one recursive verbose log of
        Some (Inr out, log1) \<Rightarrow>
          (case uploads_in_turn fuel w dst one recursive verbose rest log1 of
             Some (outs, log') \<Rightarrow> Some (out # outs, log')
           | None \<Rightarrow> None)
      | _ \<Rightarrow> None)"


subsection \<open>Scenarios\<close>

definition ok_reply :: reply where
  "ok_reply = \<lparr>status = True, errors = [], offset = 0, outputs = []\<rparr>"

definition tree_world ::
  "(string \<times> string list) list \<Rightarrow> string list \<Rightarrow> (call list \<Rightarrow> call \<Rightarrow> reply option) \<Rightarrow> world" where
  \<comment> \<open>local directories with their listings, local regular files, and a server\<close>
  "tree_world ds fs srv =
     \<lparr>exists = (\<lambda>p. p \<in> set (map fst ds) \<or> p \<in> set fs),
      isdir = (\<lambda>p. p \<in> set (map fst ds)),
      isfile = (\<lambda>p. p \<in> set fs),
      listdir = (\<lambda>p. case map_of ds p of None \<Rightarrow> [] | Some entries \<Rightarrow> entries),
      server = srv\<rparr>"

definition photos_world :: "bool \<Rightarrow> world" where
  \<comment> \<open>the spec's scenario: \<^verbatim>\<open>photos/\<close> holds \<^verbatim>\<open>a.jpg\<close> and \<^verbatim>\<open>sub/b.jpg\<close>; the server
      answers every existence probe with \<open>present\<close> and accepts everything else\<close>
  "photos_world present =
     tree_world [(''photos'', [''a.jpg'', ''sub'']), (''photos/sub'', [''b.jpg''])]
       [''photos/a.jpg'', ''photos/sub/b.jpg'']
       (\<lambda>log c. Some (if is_exists_call c then ok_reply\<lparr>status := present\<rparr> else ok_reply))"

definition complete_world :: world where
  \<comment> \<open>the server holds all of \<^verbatim>\<open>a.txt\<close>: every offset query is answered with -1\<close>
  "complete_world = tree_world [] [''a.txt''] (\<lambda>log c. Some (ok_reply\<lparr>offset := - 1\<rparr>))"

definition bigfile_world :: world where
  \<comment> \<open>\<^verbatim>\<open>bigfile.bin\<close> is a local file, and the server accepts every request\<close>
  "bigfile_world = tree_world [] [''bigfile.bin''] (\<lambda>log c. Some ok_reply)"

definition siblings_world :: world where
  \<comment> \<open>\<^verbatim>\<open>d/\<close> holds the directories \<^verbatim>\<open>s1\<close> and \<^verbatim>\<open>s2\<close>; nothing exists remotely, and
      the server refuses to create \<^verbatim>\<open>r/s1\<close>\<close>
  "siblings_world =
     tree_world [(''d'', [''s1'', ''s2'']), (''d/s1'', []), (''d/s2'', [])] []
       (\<lambda>log c. Some (case c of
                         ExistsCall _ \<Rightarrow> ok_reply\<lparr>status := False\<rparr>
                       | MkdirCall _ _ names \<Rightarrow>
                           if names = [''r/s1'']
                           then ok_reply\<lparr>status := False, errors := [''permission denied'']\<rparr>
                           else ok_reply
                       | _ \<Rightarrow> ok_reply))"

definition two_files_world :: world where
  \<comment> \<open>\<^verbatim>\<open>d/\<close> holds the files \<^verbatim>\<open>a\<close> and \<^verbatim>\<open>b\<close>; nothing exists remotely, and the
      server rejects the bytes of \<^verbatim>\<open>a\<close>\<close>
  "two_files_world =
     tree_world [(''d'', [''a'', ''b''])] [''d/a'', ''d/b'']
       (\<lambda>log c. Some (case c of
                         ExistsCall _ \<Rightarrow> ok_reply\<lparr>status := False\<rparr>
                       | UploadCall name _ _ \<Rightarrow>
                           if name = ''a''
                           then ok_reply\<lparr>status := False, errors := [''quota exceeded'']\<rparr>
                           else ok_reply
                       | _ \<Rightarrow> ok_reply))"

definition download_world :: world where
  \<comment> \<open>locally there is the current directory and nothing else\<close>
  "download_world = tree_world [(''.'', [])] [] (\<lambda>log c. Some ok_reply)"


definition offline_world :: world where
  \<comment> \<open>\<^verbatim>\<open>e/\<close> is an empty directory; the server answers the existence probe (nothing
      exists remotely) and gives no OK response to anything else\<close>
  "offline_world =
     tree_world [(''e'', [])] []
       (\<lambda>log c. if is_exists_call c then Some (ok_reply\<lparr>status := False\<rparr>) else None)"


section \<open>Verification\<close>

subsection \<open>The request layer\<close>

lemma io_bind_return [simp]: "io_bind (io_return x) f = f x"
  by (simp add: io_bind_def io_return_def)

lemma io_bind_raise [simp]: "io_bind (io_raise e) f = io_raise e"
  by (simp add: io_bind_def io_raise_def)

lemma io_bind_apply:
  "io_bind m f log = (case m log of (Inl e, log') \<Rightarrow> (Inl e, log') | (Inr x, log') \<Rightarrow> f x log')"
  by (simp add: io_bind_def)

subsection \<open>A single file\<close>

lemma sentinel_never_succeeds:
  assumes "server w log (OffsetCall src dst) = Some r" and "offset r = - 1"
  shows "\<exists>e log'. regular_upload w src dst log = (Inl e, log') \<and> filter is_upload_call log' = filter is_upload_call log"
proof -
  have ask: "remote_file_offset w src dst log = (Inr (- 1), log @ [OffsetCall src dst])"
    using assms
    by (simp add: remote_file_offset_def io_bind_apply send_request_def io_return_def)
  have "\<exists>e. open_seek w src (- 1) (log @ [OffsetCall src dst]) = (Inl e, log @ [OffsetCall src dst])"
    by (simp add: open_seek_def io_raise_def)
  then obtain e where
    "open_seek w src (- 1) (log @ [OffsetCall src dst]) = (Inl e, log @ [OffsetCall src dst])"
    by blast
  with ask have "regular_upload w src dst log = (Inl e, log @ [OffsetCall src dst])"
    by (simp add: regular_upload_def io_bind_apply)
  then show ?thesis by (simp add: is_upload_call_def)
qed

text \<open>
  C1, at the input where the code departs from it: the server answers the offset query
  for \<^verbatim>\<open>a.txt\<close> with the sentinel -1. The tuple \<^verbatim>\<open>True, None\<close> is evaluated and dropped,
  the file is opened and \<^verbatim>\<open>seek(-1)\<close> raises: no upload request is sent, and the
  outcome is an exception, not success.
\<close>

theorem complete_sentinel_falls_through:
  "upload_one_file complete_world ''a.txt'' ''a.txt'' False False [] =
     (Inl OSError, [OffsetCall ''a.txt'' ''a.txt''])"
  by code_simp

text \<open>
  C2, at the input where the code departs from it: \<^verbatim>\<open>cp -o bigfile.bin :backup/\<close>. With
  the dedup flag set, \<^verbatim>\<open>upload_one_file\<close> evaluates \<^verbatim>\<open>digest_of_path(src)\<close>, a name the
  module never binds: the call raises \<^verbatim>\<open>NameError\<close> before any request of its own, and
  the command exits with code 1 instead of reporting success.
\<close>

theorem dedup_names_are_unbound:
  "upload_one_file bigfile_world ''bigfile.bin'' ''backup/'' True False [] = (Inl NameError, [])
   \<and> cp 1 bigfile_world [''-o'', ''bigfile.bin'', '':backup/''] [] =
       Some (Inl NameError, [MkdirCall True False [''backup'']])
   \<and> main_cp 1 bigfile_world [''-o'', ''bigfile.bin'', '':backup/''] = Some 1"
  by code_simp

subsection \<open>Classifying the path tokens\<close>
















subsection \<open>\<^verbatim>\<open>cp\<close> and the direction\<close>

lemma cp_loop_returns:
  "cp_loop fuel w dst one recursive verbose srcs res log = Some (Inr b, log') \<Longrightarrow>
   \<exists>outs. uploads_in_turn fuel w dst one recursive verbose srcs log = Some (outs, log')
          \<and> b = (res \<and> list_all fst outs)"
proof (induction srcs arbitrary: res log)
  case Nil
  then show ?case by simp
next
  case (Cons s rest)
  from Cons.prems obtain st errmsg log1 where
    up: "upload fuel w s dst one recursive verbose log = Some (Inr (st, errmsg), log1)"
    and loop: "cp_loop fuel w dst one recursive verbose rest (if \<not> st then False else res) log1 =
      Some (Inr b, log')"
    by (auto split: option.splits prod.splits sum.splits)
  from Cons.IH [OF loop] obtain outs where
    "uploads_in_turn fuel w dst one recursive verbose rest log1 = Some (outs, log')"
    and "b = ((if \<not> st then False else res) \<and> list_all fst outs)"
    by blast
  with up have "uploads_in_turn fuel w dst one recursive verbose (s # rest) log =
      Some ((st, errmsg) # outs, log')
      \<and> b = (res \<and> list_all fst ((st, errmsg) # outs))"
    by auto
  then show ?case by blast
qed

lemma cp_loop_raises:
  "cp_loop fuel w dst one recursive verbose srcs res log = Some (Inl e, log') \<Longrightarrow>
   \<exists>before s after outs log1.
      srcs = before @ s # after
      \<and> uploads_in_turn fuel w dst one recursive verbose before log = Some (outs, log1)
      \<and> upload fuel w s dst one recursive verbose log1 = Some (Inl e, log')"
proof (induction srcs arbitrary: res log)
  case Nil
  then show ?case by simp
next
  case (Cons s rest)
  show ?case
  proof (cases "upload fuel w s dst one recursive verbose log = Some (Inl e, log')")
    case True
    then have "s # rest = [] @ s # rest
        \<and> uploads_in_turn fuel w dst one recursive verbose [] log = Some ([], log)
        \<and> upload fuel w s dst one recursive verbose log = Some (Inl e, log')"
      by simp
    then show ?thesis by blast
  next
    case False
    with Cons.prems obtain st errmsg log1 where
      up: "upload fuel w s dst one recursive verbose log = Some (Inr (st, errmsg), log1)"
      and loop: "cp_loop fuel w dst one recursive verbose rest (if \<not> st then False else res) log1 =
        Some (Inl e, log')"
      by (auto split: option.splits prod.splits sum.splits)
    from Cons.IH [OF loop] obtain before s' after outs log2 where
      split: "rest = before @ s' # after"
      and turn: "uploads_in_turn fuel w dst one recursive verbose before log1 = Some (outs, log2)"
      and last: "upload fuel w s' dst one recursive verbose log2 = Some (Inl e, log')"
      by blast
    have "s # rest = (s # before) @ s' # after
        \<and> uploads_in_turn fuel w dst one recursive verbose (s # before) log =
            Some ((st, errmsg) # outs, log2)
        \<and> upload fuel w s' dst one recursive verbose log2 = Some (Inl e, log')"
      using split turn last up by simp
    then show ?thesis by blast
  qed
qed

lemma cp_loop_gives_up:
  "cp_loop fuel w dst one recursive verbose srcs res log = None \<Longrightarrow>
   \<exists>before s after outs log1.
      srcs = before @ s # after
      \<and> uploads_in_turn fuel w dst one recursive verbose before log = Some (outs, log1)
      \<and> upload fuel w s dst one recursive verbose log1 = None"
proof (induction srcs arbitrary: res log)
  case Nil
  then show ?case by simp
next
  case (Cons s rest)
  show ?case
  proof (cases "upload fuel w s dst one recursive verbose log = None")
    case True
    then have "s # rest = [] @ s # rest
        \<and> uploads_in_turn fuel w dst one recursive verbose [] log = Some ([], log)
        \<and> upload fuel w s dst one recursive verbose log = None"
      by simp
    then show ?thesis by blast
  next
    case False
    with Cons.prems obtain st errmsg log1 where
      up: "upload fuel w s dst one recursive verbose log = Some (Inr (st, errmsg), log1)"
      and loop: "cp_loop fuel w dst one recursive verbose rest (if \<not> st then False else res) log1 =
        None"
      by (auto split: option.splits prod.splits sum.splits)
    from Cons.IH [OF loop] obtain before s' after outs log2 where
      split: "rest = before @ s' # after"
      and turn: "uploads_in_turn fuel w dst one recursive verbose before log1 = Some (outs, log2)"
      and last: "upload fuel w s' dst one recursive verbose log2 = None"
      by blast
    have "s # rest = (s # before) @ s' # after
        \<and> uploads_in_turn fuel w dst one recursive verbose (s # before) log =
            Some ((st, errmsg) # outs, log2)
        \<and> upload fuel w s' dst one recursive verbose log2 = None"
      using split turn last up by simp
    then show ?thesis by blast
  qed
qed

text \<open>
  C9, as the code has it. \<^verbatim>\<open>cp\<close> binds the direction that \<^verbatim>\<open>process_names\<close> returns and
  never reads it: for every invocation that \<^verbatim>\<open>process_names\<close> accepts, an upload or a
  download by its markers, the requests of \<^verbatim>\<open>cp\<close> are those of \<^verbatim>\<open>upload\<close>, called on
  the sources in order with the source token as the local path and the stripped
  destination as the remote one. When \<^verbatim>\<open>cp\<close> returns, \<^verbatim>\<open>upload\<close> has returned for
  every source, and the result is true exactly when every status was true. When \<^verbatim>\<open>cp\<close>
  raises, the sources before some source were uploaded in turn, the call for that source
  raised the same exception from the log they left, and \<^verbatim>\<open>cp\<close> ends with the log of
  that call: the sources after it are never tried. The same holds when a call does not
  return.
\<close>

theorem cp_uploads_sources_in_turn:
  assumes "parse_args args cp_request = (mapping, names)"
    and "process_names w names = Inr (src, dst, is_upload)"
    and "one = (''one'' \<in> set mapping)"
    and "recursive = (''recursive'' \<in> set mapping)"
    and "verbose = (''verbose'' \<in> set mapping)"
  shows "(\<forall>b log'. cp fuel w args log = Some (Inr b, log') \<longrightarrow>
            (\<exists>outs. uploads_in_turn fuel w dst one recursive verbose src log = Some (outs, log')
                   \<and> b = list_all fst outs))
       \<and> (\<forall>e log'. cp fuel w args log = Some (Inl e, log') \<longrightarrow>
            (\<exists>before s after outs log1.
               src = before @ s # after
               \<and> uploads_in_turn fuel w dst one recursive verbose before log = Some (outs, log1)
               \<and> upload fuel w s dst one recursive verbose log1 = Some (Inl e, log')))
       \<and> (cp fuel w args log = None \<longrightarrow>
            (\<exists>before s after outs log1.
               src = before @ s # after
               \<and> uploads_in_turn fuel w dst one recursive verbose before log = Some (outs, log1)
               \<and> upload fuel w s dst one recursive verbose log1 = None))"
proof -
  have "cp fuel w args log =
      cp_loop fuel w dst (''one'' \<in> set mapping) (''recursive'' \<in> set mapping)
        (''verbose'' \<in> set mapping) src True log"
    by (simp add: cp_def assms(1) assms(2))
  then have cp: "cp fuel w args log = cp_loop fuel w dst one recursive verbose src True log"
    unfolding assms(3) assms(4) assms(5) .
  show ?thesis
  proof (intro conjI allI impI)
    fix b log'
    assume "cp fuel w args log = Some (Inr b, log')"
    with cp have "cp_loop fuel w dst one recursive verbose src True log = Some (Inr b, log')"
      by simp
    from cp_loop_returns [OF this]
    show "\<exists>outs. uploads_in_turn fuel w dst one recursive verbose src log = Some (outs, log')
                   \<and> b = list_all fst outs"
      by simp
  next
    fix e log'
    assume "cp fuel w args log = Some (Inl e, log')"
    with cp have "cp_loop fuel w dst one recursive verbose src True log = Some (Inl e, log')"
      by simp
    then show "\<exists>before s after outs log1.
               src = before @ s # after
               \<and> uploads_in_turn fuel w dst one recursive verbose before log = Some (outs, log1)
               \<and> upload fuel w s dst one recursive verbose log1 = Some (Inl e, log')"
      by (rule cp_loop_raises)
  next
    assume "cp fuel w args log = None"
    with cp have "cp_loop fuel w dst one recursive verbose src True log = None"
      by simp
    then show "\<exists>before s after outs log1.
               src = before @ s # after
               \<and> uploads_in_turn fuel w dst one recursive verbose before log = Some (outs, log1)
               \<and> upload fuel w s dst one recursive verbose log1 = None"
      by (rule cp_loop_gives_up)
  qed
qed

text \<open>
  \<^verbatim>\<open>cp d/a d/b :r\<close> uploads both files and reports the failure of the first;
  \<^verbatim>\<open>cp :multimedia :calculus.pdf .\<close> stops at its first source.
\<close>

theorem cp_uploads_sources_in_turn_witness:
  "cp 1 two_files_world [''d/a'', ''d/b'', '':r''] [] =
     Some (Inr False,
       [MkdirCall True False [[]], OffsetCall ''d/a'' ''r'', UploadCall ''a'' 0 ''d/a'',
        MkdirCall True False [[]], OffsetCall ''d/b'' ''r'', UploadCall ''b'' 0 ''d/b''])
   \<and> (\<exists>outs. uploads_in_turn 1 two_files_world ''r'' False False False [''d/a'', ''d/b''] [] =
         Some (outs,
           [MkdirCall True False [[]], OffsetCall ''d/a'' ''r'', UploadCall ''a'' 0 ''d/a'',
            MkdirCall True False [[]], OffsetCall ''d/b'' ''r'', UploadCall ''b'' 0 ''d/b''])
       \<and> False = list_all fst outs)
   \<and> cp 1 download_world ['':multimedia'', '':calculus.pdf'', ''.''] [] =
     Some (Inl FileNotFoundError, [MkdirCall True False [[]], OffsetCall '':multimedia'' []])
   \<and> (\<exists>before s after outs log1.
         ['':multimedia'', '':calculus.pdf''] = before @ s # after
         \<and> uploads_in_turn 1 download_world [] False False False before [] = Some (outs, log1)
         \<and> upload 1 download_world s [] False False False log1 =
             Some (Inl FileNotFoundError, [MkdirCall True False [[]], OffsetCall '':multimedia'' []]))"
proof -
  have parse_up: "parse_args [''d/a'', ''d/b'', '':r''] cp_request = ([], [''d/a'', ''d/b'', '':r''])"
    by code_simp
  have names_up: "process_names two_files_world [''d/a'', ''d/b'', '':r''] =
      Inr ([''d/a'', ''d/b''], ''r'', True)"
    by code_simp
  have run_up: "cp 1 two_files_world [''d/a'', ''d/b'', '':r''] [] =
     Some (Inr False,
       [MkdirCall True False [[]], OffsetCall ''d/a'' ''r'', UploadCall ''a'' 0 ''d/a'',
        MkdirCall True False [[]], OffsetCall ''d/b'' ''r'', UploadCall ''b'' 0 ''d/b''])"
    by code_simp
  have parse_down: "parse_args ['':multimedia'', '':calculus.pdf'', ''.''] cp_request =
      ([], ['':multimedia'', '':calculus.pdf'', ''.''])"
    by code_simp
  have names_down: "process_names download_world ['':multimedia'', '':calculus.pdf'', ''.''] =
      Inr (['':multimedia'', '':calculus.pdf''], [], False)"
    by code_simp
  have run_down: "cp 1 download_world ['':multimedia'', '':calculus.pdf'', ''.''] [] =
     Some (Inl FileNotFoundError, [MkdirCall True False [[]], OffsetCall '':multimedia'' []])"
    by code_simp
  have flag: "False = (''one'' \<in> set [])" "False = (''recursive'' \<in> set [])"
      "False = (''verbose'' \<in> set [])"
    by simp_all
  note up = cp_uploads_sources_in_turn [OF parse_up names_up flag, of 1 "[]"]
  note down = cp_uploads_sources_in_turn [OF parse_down names_down flag, of 1 "[]"]
  from up run_up have returned: "\<exists>outs.
      uploads_in_turn 1 two_files_world ''r'' False False False [''d/a'', ''d/b''] [] =
         Some (outs,
           [MkdirCall True False [[]], OffsetCall ''d/a'' ''r'', UploadCall ''a'' 0 ''d/a'',
            MkdirCall True False [[]], OffsetCall ''d/b'' ''r'', UploadCall ''b'' 0 ''d/b''])
       \<and> False = list_all fst outs"
    by blast
  from down run_down have raised: "\<exists>before s after outs log1.
         ['':multimedia'', '':calculus.pdf''] = before @ s # after
         \<and> uploads_in_turn 1 download_world [] False False False before [] = Some (outs, log1)
         \<and> upload 1 download_world s [] False False False log1 =
             Some (Inl FileNotFoundError, [MkdirCall True False [[]], OffsetCall '':multimedia'' []])"
    by blast
  from run_up returned run_down raised show ?thesis by (intro conjI)
qed

text \<open>
  The claim C9 as it is written fails in one point: \<^verbatim>\<open>upload\<close> is not called for each
  source. For \<^verbatim>\<open>cp :multimedia :calculus.pdf .\<close> the upload of \<^verbatim>\<open>:multimedia\<close> asks for
  a directory and an offset and then fails to open a local file of that name; the
  exception ends the command, and nothing is requested for \<^verbatim>\<open>:calculus.pdf\<close>.
\<close>

theorem later_sources_are_not_tried:
  "process_names download_world ['':multimedia'', '':calculus.pdf'', ''.''] =
     Inr (['':multimedia'', '':calculus.pdf''], [], False)
   \<and> cp 1 download_world ['':multimedia'', '':calculus.pdf'', ''.''] [] =
     Some (Inl FileNotFoundError, [MkdirCall True False [[]], OffsetCall '':multimedia'' []])"
  by code_simp

subsection \<open>The walk over a directory\<close>










text \<open>
  C4, at the input where the code departs from it: \<^verbatim>\<open>cp -r photos :albums/2020\<close> with
  the remote paths present. The flag \<^verbatim>\<open>assume_not_exists\<close> is set only when a probe
  finds the target absent, so after a probe that finds it present the next task probes
  again: the log holds two requests to the \<^verbatim>\<open>exists\<close> endpoint.
\<close>

theorem present_target_probed_again:
  "upload 3 (photos_world True) ''photos'' ''albums/2020'' False True False [] =
     Some (Inr (True, Errors []),
       [ExistsCall ''albums/2020'',
        MkdirCall True False [''albums/2020/photos''],
        OffsetCall ''photos/a.jpg'' ''albums/2020/a.jpg'',
        UploadCall ''a.jpg'' 0 ''photos/a.jpg'',
        ExistsCall ''albums/2020/sub'',
        MkdirCall True False [''albums/2020/sub/photos/sub''],
        OffsetCall ''photos/sub/b.jpg'' ''albums/2020/sub/b.jpg'',
        UploadCall ''b.jpg'' 0 ''photos/sub/b.jpg''])"
  by code_simp

text \<open>
  C5, as the code has it. \<^verbatim>\<open>upload\<close> asserts the result of every directory creation.
  When the request of a task fails (no OK response, or a false \<^verbatim>\<open>status\<close>), the walk ends
  there with an \<^verbatim>\<open>AssertionError\<close>: whatever directories are still queued are not
  visited, and the log ends with the failed request.
\<close>

theorem mkdir_failure_aborts_walk:
  assumes "probe w assume_not_exists dir dst_dir log = (Inr (new_dir, assume'), log1)"
    and "mkdir w ([new_dir, ''-p''] @ (if verbose then [''-v''] else [])) log1 = (Inr False, log2)"
  shows "walk (Suc n) w one verbose ((dir, dst_dir) # dirs) assume_not_exists res log =
           Some (Inl (AssertionError []), log2)"
proof -
  have "walk_step w one verbose dir dst_dir dirs assume_not_exists res log =
      (Inl (AssertionError []), log2)"
    using assms by (simp add: walk_step_def io_bind_apply io_raise_def)
  then show ?thesis by simp
qed

theorem mkdir_failure_aborts_walk_witness:
  "walk 1 siblings_world False False [(''d/s1'', ''r/s1''), (''d/s2'', ''r/s2'')] True None
     [ExistsCall ''r'', MkdirCall True False [''r'']] =
   Some (Inl (AssertionError []),
     [ExistsCall ''r'', MkdirCall True False [''r''], MkdirCall True False [''r/s1'']])"
proof -
  have p: "probe siblings_world True ''d/s1'' ''r/s1'' [ExistsCall ''r'', MkdirCall True False [''r'']] =
      (Inr (''r/s1'', True), [ExistsCall ''r'', MkdirCall True False [''r'']])"
    by code_simp
  have m: "mkdir siblings_world ([''r/s1'', ''-p''] @ (if False then [''-v''] else []))
       [ExistsCall ''r'', MkdirCall True False [''r'']] =
      (Inr False, [ExistsCall ''r'', MkdirCall True False [''r''], MkdirCall True False [''r/s1'']])"
    by code_simp
  show ?thesis
    using mkdir_failure_aborts_walk [OF p m, of 0 False "[(''d/s2'', ''r/s2'')]" None] by simp
qed

text \<open>
  The claim C5 as it is written fails: in \<^verbatim>\<open>d/\<close> with the subdirectories \<^verbatim>\<open>s1\<close> and
  \<^verbatim>\<open>s2\<close>, the refusal to create \<^verbatim>\<open>r/s1\<close> raises, and \<^verbatim>\<open>r/s2\<close> is never requested.
\<close>

theorem failed_mkdir_stops_walk:
  "upload 4 siblings_world ''d'' ''r'' False True False [] =
     Some (Inl (AssertionError []),
       [ExistsCall ''r'', MkdirCall True False [''r''], MkdirCall True False [''r/s1'']])"
  by code_simp

text \<open>
  C6, at the input where the code departs from it: \<^verbatim>\<open>cp -r d :r\<close>, where the server
  rejects the bytes of \<^verbatim>\<open>d/a\<close> and accepts those of \<^verbatim>\<open>d/b\<close>. Each file's result
  overwrites the locals \<^verbatim>\<open>status, errmsg\<close>, so \<^verbatim>\<open>upload\<close> returns the result of the
  last file: \<^verbatim>\<open>cp\<close> returns \<^verbatim>\<open>True\<close> and the exit code is 0.
\<close>

theorem early_failure_is_forgotten:
  "cp 2 two_files_world [''-r'', ''d'', '':r''] [] =
     Some (Inr True,
       [ExistsCall ''r'', MkdirCall True False [''r''],
        OffsetCall ''d/a'' ''r/a'', UploadCall ''a'' 0 ''d/a'',
        OffsetCall ''d/b'' ''r/b'', UploadCall ''b'' 0 ''d/b''])
   \<and> upload_one_file two_files_world ''d/a'' ''r/a'' False False
       [ExistsCall ''r'', MkdirCall True False [''r'']] =
     (Inr (False, Errors [''quota exceeded'']),
       [ExistsCall ''r'', MkdirCall True False [''r''],
        OffsetCall ''d/a'' ''r/a'', UploadCall ''a'' 0 ''d/a''])
   \<and> main_cp 2 two_files_world [''-r'', ''d'', '':r''] = Some 0"
  by code_simp

subsection \<open>A tree without regular files\<close>













lemma walk_more_fuel:
  "walk n w one verbose queue flag res log = Some r \<Longrightarrow>
   walk (n + k) w one verbose queue flag res log = Some r"
proof (induction n arbitrary: queue flag res log)
  case 0
  then show ?case by simp
next
  case (Suc n)
  show ?case
  proof (cases queue)
    case Nil
    with Suc.prems show ?thesis by simp
  next
    case (Cons task dirs)
    obtain dir dst_dir where task: "task = (dir, dst_dir)" by (cases task)
    obtain x log1 where step: "walk_step w one verbose dir dst_dir dirs flag res log = (x, log1)"
      by (cases "walk_step w one verbose dir dst_dir dirs flag res log")
    show ?thesis
    proof (cases x)
      case (Inl e)
      with Suc.prems Cons task step show ?thesis by simp
    next
      case (Inr y)
      obtain dirs' flag' res' where y: "y = (dirs', flag', res')" by (cases y)
      from Suc.prems Cons task step Inr y
      have "walk n w one verbose dirs' flag' res' log1 = Some r" by simp
      from Suc.IH [OF this] Cons task step Inr y show ?thesis by simp
    qed
  qed
qed

lemma upload_more_fuel:
  assumes "upload n w src dst one recursive verbose log = Some r"
  shows "upload (n + k) w src dst one recursive verbose log = Some r"
proof (cases "isdir w src \<and> recursive")
  case False
  with assms show ?thesis by (auto simp: upload_def)
next
  case True
  with assms obtain r' where
    "walk n w one verbose [(src, dst)] False None log = Some r'"
    by (auto simp: upload_def split: option.splits)
  from walk_more_fuel [OF this, of k] this assms True show ?thesis
    by (simp add: upload_def)
qed


lemma offline_upload_never_unbound:
  "upload fuel offline_world ''e'' ''r'' False True False [] \<noteq> Some (Inl UnboundLocalError, log')"
proof
  assume a: "upload fuel offline_world ''e'' ''r'' False True False [] = Some (Inl UnboundLocalError, log')"
  have run: "upload 2 offline_world ''e'' ''r'' False True False [] =
       Some (Inl (AssertionError []), [ExistsCall ''r'', MkdirCall True False [''r'']])"
    by code_simp
  from upload_more_fuel [OF a, of 2] upload_more_fuel [OF run, of fuel]
  show False by (simp add: add.commute)
qed

end
